theory Spec2Isabelle
  imports Complex_Main "HOL-Library.Word"
begin

section \<open>Python values\<close>

text \<open>
  A Python \<open>str\<close> is a sequence of Unicode code points and a \<open>bytes\<close> value a sequence
  of octets. String literals of the source are written \<open>py ''...''\<close>, byte strings of
  ASCII text \<open>ascii ''...''\<close>.
\<close>

type_synonym str = "nat list"
type_synonym bytes = "8 word list"

definition py :: "string \<Rightarrow> str" where
  "py s = map of_char s"

definition ascii :: "string \<Rightarrow> bytes" where
  "ascii s = map of_char s"

text \<open>
  The values an \<open>Any\<close> of the source ranges over: \<open>None\<close>, booleans, integers, finite
  floats (as the rational they denote), strings, lists and dicts with string keys. A dict
  is an association list in insertion order with distinct keys.
\<close>

datatype pyval =
    PNone
  | PBool bool
  | PInt int
  | PFloat rat
  | PStr str
  | PList "pyval list"
  | PDict "(str \<times> pyval) list"

type_synonym pydict = "(str \<times> pyval) list"

text \<open>Truth value testing, as \<open>if x\<close>, \<open>not x\<close> and \<open>x or y\<close> apply it.\<close>

fun truthy :: "pyval \<Rightarrow> bool" where
  "truthy PNone = False"
| "truthy (PBool b) = b"
| "truthy (PInt i) = (i \<noteq> 0)"
| "truthy (PFloat r) = (r \<noteq> 0)"
| "truthy (PStr s) = (s \<noteq> [])"
| "truthy (PList xs) = (xs \<noteq> [])"
| "truthy (PDict d) = (d \<noteq> [])"

definition py_or :: "pyval \<Rightarrow> pyval \<Rightarrow> pyval" where
  "py_or a b = (if truthy a then a else b)"

text \<open>\<open>d.get(k)\<close>: the value stored at \<open>k\<close>, and \<open>None\<close> where there is none.\<close>

definition get :: "pydict \<Rightarrow> str \<Rightarrow> pyval" where
  "get d k = (case map_of d k of None \<Rightarrow> PNone | Some v \<Rightarrow> v)"

text \<open>\<open>d[k] = v\<close> and \<open>dict(pairs)\<close>: a key keeps its first position and its last value.\<close>

definition dict_set :: "(str \<times> 'v) list \<Rightarrow> str \<Rightarrow> 'v \<Rightarrow> (str \<times> 'v) list" where
  "dict_set d k v =
     (if k \<in> fst ` set d then map (\<lambda>(k', v'). if k' = k then (k', v) else (k', v')) d
      else d @ [(k, v)])"

definition dict :: "(str \<times> 'v) list \<Rightarrow> (str \<times> 'v) list" where
  "dict pairs = foldl (\<lambda>d (k, v). dict_set d k v) [] pairs"

subsection \<open>\<open>str.strip\<close> and \<open>str.rstrip\<close>\<close>

text \<open>The code points for which \<open>str.isspace\<close> holds; \<open>strip()\<close> removes them at both ends.\<close>

definition isspace :: "nat \<Rightarrow> bool" where
  "isspace c =
     ((0x09 \<le> c \<and> c \<le> 0x0D) \<or> (0x1C \<le> c \<and> c \<le> 0x20) \<or> c = 0x85 \<or> c = 0xA0
      \<or> c = 0x1680 \<or> (0x2000 \<le> c \<and> c \<le> 0x200A) \<or> c = 0x2028 \<or> c = 0x2029
      \<or> c = 0x202F \<or> c = 0x205F \<or> c = 0x3000)"

definition strip :: "str \<Rightarrow> str" where
  "strip s = rev (dropWhile isspace (rev (dropWhile isspace s)))"

text \<open>\<open>s.rstrip(chars)\<close> removes the trailing code points that occur in \<open>chars\<close>.\<close>

definition rstrip :: "str \<Rightarrow> str \<Rightarrow> str" where
  "rstrip chars s = rev (dropWhile (\<lambda>c. c \<in> set chars) (rev s))"

subsection \<open>\<open>bytes.decode\<close>\<close>

text \<open>
  \<open>b.decode()\<close> is strict UTF-8: shortest form only, no surrogates, nothing above
  U+10FFFF. \<open>None\<close> stands for the \<open>UnicodeDecodeError\<close> it raises otherwise.
\<close>

definition continuation :: "nat \<Rightarrow> bool" where
  "continuation b = (0x80 \<le> b \<and> b \<le> 0xBF)"

fun utf8_decode :: "nat list \<Rightarrow> str option" where
  "utf8_decode [] = Some []"
| "utf8_decode (b0 # bs) =
     (if b0 < 0x80 then map_option (Cons b0) (utf8_decode bs)
      else if 0xC2 \<le> b0 \<and> b0 \<le> 0xDF then
        (case bs of
           b1 # r \<Rightarrow>
             if continuation b1
             then map_option (Cons ((b0 - 0xC0) * 0x40 + (b1 - 0x80))) (utf8_decode r)
             else None
         | _ \<Rightarrow> None)
      else if 0xE0 \<le> b0 \<and> b0 \<le> 0xEF then
        (case bs of
           b1 # b2 # r \<Rightarrow>
             if (if b0 = 0xE0 then 0xA0 else 0x80) \<le> b1
                \<and> b1 \<le> (if b0 = 0xED then 0x9F else 0xBF) \<and> continuation b2
             then map_option
                    (Cons (((b0 - 0xE0) * 0x40 + (b1 - 0x80)) * 0x40 + (b2 - 0x80)))
                    (utf8_decode r)
             else None
         | _ \<Rightarrow> None)
      else if 0xF0 \<le> b0 \<and> b0 \<le> 0xF4 then
        (case bs of
           b1 # b2 # b3 # r \<Rightarrow>
             if (if b0 = 0xF0 then 0x90 else 0x80) \<le> b1
                \<and> b1 \<le> (if b0 = 0xF4 then 0x8F else 0xBF)
                \<and> continuation b2 \<and> continuation b3
             then map_option
                    (Cons ((((b0 - 0xF0) * 0x40 + (b1 - 0x80)) * 0x40 + (b2 - 0x80)) * 0x40
                           + (b3 - 0x80)))
                    (utf8_decode r)
             else None
         | _ \<Rightarrow> None)
      else None)"

definition decode :: "bytes \<Rightarrow> str option" where
  "decode b = utf8_decode (map unat b)"

section \<open>\<open>json.loads\<close>\<close>

text \<open>
  What \<open>json.loads\<close> returns. A number with a fraction or an exponent, and the constants
  \<open>NaN\<close>, \<open>Infinity\<close> and \<open>-Infinity\<close>, become the float that Python's \<open>float\<close> makes of
  the literal; the literal is kept in its place.
\<close>

datatype json =
    JNull
  | JBool bool
  | JInt int
  | JFloat str
  | JStr str
  | JArr "json list"
  | JObj "(str \<times> json) list"

definition is_ws :: "nat \<Rightarrow> bool" where
  "is_ws c = (c = 0x20 \<or> c = 0x09 \<or> c = 0x0A \<or> c = 0x0D)"

definition skip_ws :: "str \<Rightarrow> str" where
  "skip_ws s = dropWhile is_ws s"

definition is_digit :: "nat \<Rightarrow> bool" where
  "is_digit c = (0x30 \<le> c \<and> c \<le> 0x39)"

definition hex_digit :: "nat \<Rightarrow> nat option" where
  "hex_digit c =
     (if 0x30 \<le> c \<and> c \<le> 0x39 then Some (c - 0x30)
      else if 0x41 \<le> c \<and> c \<le> 0x46 then Some (c - 0x41 + 10)
      else if 0x61 \<le> c \<and> c \<le> 0x66 then Some (c - 0x61 + 10)
      else None)"

text \<open>The four hexadecimal digits of a \<open>\uXXXX\<close> escape.\<close>

fun decode_uXXXX :: "str \<Rightarrow> nat option" where
  "decode_uXXXX (a # b # c # d # rest) =
     (case (hex_digit a, hex_digit b, hex_digit c, hex_digit d) of
        (Some x3, Some x2, Some x1, Some x0) \<Rightarrow> Some (((x3 * 16 + x2) * 16 + x1) * 16 + x0)
      | _ \<Rightarrow> None)"
| "decode_uXXXX _ = None"

definition prepend :: "nat \<Rightarrow> (str \<times> str) option \<Rightarrow> (str \<times> str) option" where
  "prepend c r = (case r of None \<Rightarrow> None | Some (s, rest) \<Rightarrow> Some (c # s, rest))"

text \<open>
  \<open>scanstring\<close> (strict mode) reads a string literal from just after its opening quote
  and returns its value with the input that follows the closing quote. A control
  character, an unknown escape or a missing closing quote is an error (\<open>None\<close>); a high
  surrogate escape followed by a low surrogate escape is one code point.
\<close>

fun scanstring :: "str \<Rightarrow> (str \<times> str) option" where
  "scanstring [] = None"
| "scanstring (c # cs) =
     (if c = 0x22 then Some ([], cs)
      else if c = 0x5C then
        (case cs of
           [] \<Rightarrow> None
         | e # es \<Rightarrow>
             if e = 0x22 then prepend 0x22 (scanstring es)
             else if e = 0x5C then prepend 0x5C (scanstring es)
             else if e = 0x2F then prepend 0x2F (scanstring es)
             else if e = 0x62 then prepend 0x08 (scanstring es)
             else if e = 0x66 then prepend 0x0C (scanstring es)
             else if e = 0x6E then prepend 0x0A (scanstring es)
             else if e = 0x72 then prepend 0x0D (scanstring es)
             else if e = 0x74 then prepend 0x09 (scanstring es)
             else if e = 0x75 then
               (case decode_uXXXX es of
                  None \<Rightarrow> None
                | Some uni \<Rightarrow>
                    if 0xD800 \<le> uni \<and> uni \<le> 0xDBFF \<and> take 2 (drop 4 es) = [0x5C, 0x75] then
                      (case decode_uXXXX (drop 6 es) of
                         None \<Rightarrow> None
                       | Some uni2 \<Rightarrow>
                           if 0xDC00 \<le> uni2 \<and> uni2 \<le> 0xDFFF
                           then prepend (0x10000 + ((uni - 0xD800) * 1024 + (uni2 - 0xDC00)))
                                  (scanstring (drop 10 es))
                           else prepend uni (scanstring (drop 4 es)))
                    else prepend uni (scanstring (drop 4 es)))
             else None)
      else if c < 0x20 then None
      else prepend c (scanstring cs))"

lemma prepend_Some: "prepend c r = Some (s, rest) \<Longrightarrow> \<exists>s'. r = Some (s', rest)"
  by (auto simp: prepend_def split: option.splits)

lemma scanstring_step:
  assumes "\<And>t k r. length t < n \<Longrightarrow> scanstring t = Some (k, r) \<Longrightarrow> length r < length t"
    and "prepend x (scanstring t) = Some (k, rest)" and "length t < n"
  shows "length rest < n"
proof -
  from assms(2) obtain s' where "scanstring t = Some (s', rest)"
    by (auto dest: prepend_Some)
  with assms(1)[OF assms(3)] have "length rest < length t" by blast
  with assms(3) show ?thesis by simp
qed

lemma scanstring_length: "scanstring s = Some (k, rest) \<Longrightarrow> length rest < length s"
proof (induction "length s" arbitrary: s k rest rule: less_induct)
  case less
  note IH = less.hyps
  show ?case
  proof (cases s)
    case Nil
    with less.prems show ?thesis by simp
  next
    case (Cons c cs)
    have st: "\<And>x t. prepend x (scanstring t) = Some (k, rest) \<Longrightarrow> length t < length s
               \<Longrightarrow> length rest < length s"
      using scanstring_step[where n = "length s"] IH by blast
    have l1: "length cs < length s" "length (tl cs) < length s"
      "length (drop 4 (tl cs)) < length s" "length (drop 10 (tl cs)) < length s"
      using Cons by simp_all
    from less.prems have "scanstring (c # cs) = Some (k, rest)"
      using Cons by simp
    then show ?thesis
      by (simp only: scanstring.simps(2)[of c cs] split: if_splits option.splits list.splits)
         (use st l1 in \<open>auto simp del: scanstring.simps\<close>)
  qed
qed

text \<open>
  The number pattern \<open>(-?(?:0|[1-9][0-9]*))(\.[0-9]+)?([eE][-+]?[0-9]+)?\<close>: the longest
  match at the head of the input; an integer when neither fraction nor exponent matched.
\<close>

definition int_of_digits :: "str \<Rightarrow> int" where
  "int_of_digits ds = foldl (\<lambda>n d. 10 * n + (int d - 0x30)) 0 ds"

definition match_frac :: "str \<Rightarrow> str \<times> str" where
  "match_frac s =
     (case s of
        [] \<Rightarrow> ([], s)
      | p # s1 \<Rightarrow>
          if p = 0x2E \<and> takeWhile is_digit s1 \<noteq> []
          then (p # takeWhile is_digit s1, dropWhile is_digit s1)
          else ([], s))"

definition match_exponent :: "str \<Rightarrow> str \<times> str" where
  "match_exponent s =
     (case s of
        [] \<Rightarrow> ([], s)
      | e # s1 \<Rightarrow>
          if e = 0x65 \<or> e = 0x45 then
            (let sgn = (case s1 of [] \<Rightarrow> [] | c # _ \<Rightarrow> if c = 0x2D \<or> c = 0x2B then [c] else []);
                 s2 = drop (length sgn) s1;
                 ds = takeWhile is_digit s2
             in if ds = [] then ([], s) else (e # sgn @ ds, dropWhile is_digit s2))
          else ([], s))"

definition match_number :: "str \<Rightarrow> (json \<times> str) option" where
  "match_number s =
     (let minus = (case s of [] \<Rightarrow> [] | c # _ \<Rightarrow> if c = 0x2D then [c] else []);
          s1 = drop (length minus) s
      in case s1 of
           [] \<Rightarrow> None
         | d # ds \<Rightarrow>
             if \<not> is_digit d then None
             else
               (let integer = (if d = 0x30 then [d] else d # takeWhile is_digit ds);
                    s2 = drop (length integer) s1;
                    (frac, s3) = match_frac s2;
                    (expo, s4) = match_exponent s3
                in if frac = [] \<and> expo = []
                   then Some (JInt (if minus = [] then int_of_digits integer
                                    else - int_of_digits integer), s4)
                   else Some (JFloat (minus @ integer @ frac @ expo), s4)))"

text \<open>
  The scanner. \<open>scan_once\<close> reads one value at the head of the input; \<open>JSONArray\<close> reads
  the elements of an array from its first element on, \<open>JSONObject\<close> the members of an
  object from just after the opening quote of its first key. Each returns the value with
  the rest of the input. The two tests \<open>length rest < length s\<close> are what the termination
  proof rests on; they never fail (\<open>JSONArray_unguarded\<close>, \<open>JSONObject_unguarded\<close>).
\<close>

lemma skip_ws_length: "length (skip_ws s) \<le> length s"
  by (simp add: skip_ws_def length_dropWhile_le)

lemma skip_ws_Cons_length: "skip_ws s = c # rest \<Longrightarrow> length rest < length s"
  using skip_ws_length[of s] by simp

function scan_once :: "str \<Rightarrow> (json \<times> str) option"
  and JSONArray :: "json list \<Rightarrow> str \<Rightarrow> (json \<times> str) option"
  and JSONObject :: "(str \<times> json) list \<Rightarrow> str \<Rightarrow> (json \<times> str) option"
where
  "scan_once s =
     (case s of
        [] \<Rightarrow> None
      | nextchar # cs \<Rightarrow>
          if nextchar = 0x22 then
            (case scanstring cs of None \<Rightarrow> None | Some (v, rest) \<Rightarrow> Some (JStr v, rest))
          else if nextchar = 0x7B then
            (case skip_ws cs of
               [] \<Rightarrow> None
             | c # rest \<Rightarrow>
                 if c = 0x22 then JSONObject [] rest
                 else if c = 0x7D then Some (JObj [], rest)
                 else None)
          else if nextchar = 0x5B then
            (case skip_ws cs of
               [] \<Rightarrow> None
             | c # rest \<Rightarrow>
                 if c = 0x5D then Some (JArr [], rest)
                 else JSONArray [] (c # rest))
          else if nextchar = 0x6E \<and> take 4 s = py ''null'' then Some (JNull, drop 4 s)
          else if nextchar = 0x74 \<and> take 4 s = py ''true'' then Some (JBool True, drop 4 s)
          else if nextchar = 0x66 \<and> take 5 s = py ''false'' then Some (JBool False, drop 5 s)
          else
            (case match_number s of
               Some r \<Rightarrow> Some r
             | None \<Rightarrow>
                 if nextchar = 0x4E \<and> take 3 s = py ''NaN''
                   then Some (JFloat (py ''NaN''), drop 3 s)
                 else if nextchar = 0x49 \<and> take 8 s = py ''Infinity''
                   then Some (JFloat (py ''Infinity''), drop 8 s)
                 else if nextchar = 0x2D \<and> take 9 s = py ''-Infinity''
                   then Some (JFloat (py ''-Infinity''), drop 9 s)
                 else None))"
| "JSONArray values s =
     (case scan_once s of
        None \<Rightarrow> None
      | Some (v, rest) \<Rightarrow>
          if length rest < length s then
            (case skip_ws rest of
               [] \<Rightarrow> None
             | nextchar # rest' \<Rightarrow>
                 if nextchar = 0x5D then Some (JArr (values @ [v]), rest')
                 else if nextchar = 0x2C then JSONArray (values @ [v]) (skip_ws rest')
                 else None)
          else None)"
| "JSONObject pairs s =
     (case scanstring s of
        None \<Rightarrow> None
      | Some (key, rest) \<Rightarrow>
          (case skip_ws rest of
             [] \<Rightarrow> None
           | colon # rest1 \<Rightarrow>
               if colon \<noteq> 0x3A then None
               else
                 (case scan_once (skip_ws rest1) of
                    None \<Rightarrow> None
                  | Some (v, rest2) \<Rightarrow>
                      if length rest2 < length s then
                        (case skip_ws rest2 of
                           [] \<Rightarrow> None
                         | nextchar # rest3 \<Rightarrow>
                             if nextchar = 0x7D
                               then Some (JObj (dict (pairs @ [(key, v)])), rest3)
                             else if nextchar = 0x2C then
                               (case skip_ws rest3 of
                                  [] \<Rightarrow> None
                                | q # rest4 \<Rightarrow>
                                    if q = 0x22 then JSONObject (pairs @ [(key, v)]) rest4
                                    else None)
                             else None)
                      else None)))"
  by pat_completeness auto

termination
proof (relation "measure (\<lambda>x. case x of
          Inl s \<Rightarrow> 2 * length s
        | Inr (Inl (vs, s)) \<Rightarrow> 2 * length s + 1
        | Inr (Inr (ps, s)) \<Rightarrow> 2 * length s + 1)", goal_cases)
  case 1
  then show ?case by simp
next
  case (2 s nextchar cs c rest)
  then show ?case using skip_ws_Cons_length[of cs c rest] by simp
next
  case (3 s nextchar cs c rest)
  then show ?case using skip_ws_Cons_length[of cs c rest] by simp
next
  case (4 vs s)
  then show ?case by simp
next
  case (5 vs s x v r nextchar rest)
  then show ?case using skip_ws_Cons_length[of r nextchar rest] skip_ws_length[of rest] by simp
next
  case (6 ps s x key r colon rest)
  then show ?case
    using scanstring_length[of s key r] skip_ws_Cons_length[of r colon rest]
      skip_ws_length[of rest]
    by simp
next
  case (7 ps s x key r colon rest y v r' nextchar rest' q rest'')
  then show ?case
    using skip_ws_Cons_length[of r' nextchar rest'] skip_ws_Cons_length[of rest' q rest'']
    by simp
qed

declare scan_once.simps [simp del] JSONArray.simps [simp del] JSONObject.simps [simp del]

text \<open>
  \<open>json.loads(s)\<close> for a \<open>str\<close>: a leading byte-order mark is refused, white space around
  the document is skipped, and anything after the document is an error. \<open>None\<close> stands
  for the \<open>JSONDecodeError\<close> raised otherwise. The limits of the interpreter (recursion
  depth, memory) are not modelled.
\<close>

definition json_loads :: "str \<Rightarrow> json option" where
  "json_loads s =
     (if take 1 s = [0xFEFF] then None
      else case scan_once (skip_ws s) of
             None \<Rightarrow> None
           | Some (obj, rest) \<Rightarrow> if skip_ws rest = [] then Some obj else None)"

section \<open>The environment of the module\<close>

text \<open>
  \<open>ENV\<close> (module \<open>config.env\<close>) is configuration read once from the process
  environment; only the attributes this module reads are kept.
\<close>

record ENV =
  RPC_URL :: str
  CLOB_HTTP_URL :: str
  PRIVATE_KEY :: str
  PROXY_WALLET :: str

text \<open>The logger: \<open>info(msg)\<close> and \<open>error(msg)\<close> append one entry each.\<close>

datatype log_entry = LogInfo str | LogError str

text \<open>
  The chain node behind \<open>Web3\<close>: \<open>Web3.to_checksum_address(address)\<close> and
  \<open>Web3(Web3.HTTPProvider(url)).eth.get_code(address)\<close>. A call either raises an
  \<open>Exception\<close> \<open>e\<close> (\<open>Inl\<close> of \<open>str(e)\<close>) or returns (\<open>Inr\<close>).
\<close>

record chain =
  to_checksum_address :: "str \<Rightarrow> str + str"
  get_code :: "str \<Rightarrow> str \<Rightarrow> str + bytes"

text \<open>
  The operating system: \<open>os.getenv\<close>, \<open>shutil.which\<close>, the path of the bridge script
  (\<open>Path(__file__).resolve().parents[2] / 'scripts' / 'clob_bridge.mjs'\<close>, as a string)
  and whether it exists, and the child process. \<open>create_subprocess_exec\<close> stands for
  starting \<open>node_path script_path\<close> and \<open>communicate\<close> with the serialised request
  \<open>{'action': action, 'payload': payload}\<close> on its standard input: it raises (\<open>Inl\<close>) or
  gives the exit status and what the process wrote.
\<close>

record process =
  returncode :: int
  stdout :: bytes
  stderr :: bytes

datatype exc = UnicodeDecodeError | OSError str

record os =
  getenv :: "str \<Rightarrow> str option"
  which :: "str \<Rightarrow> str option"
  script_path :: str
  script_exists :: bool
  create_subprocess_exec :: "str \<Rightarrow> str \<Rightarrow> str \<times> pydict \<Rightarrow> exc + process"

section \<open>Wallet classifier\<close>

text \<open>The byte string \<open>b'0x'\<close>: the two ASCII characters \<open>0\<close> and \<open>x\<close>.\<close>

definition b0x :: bytes where
  "b0x = [0x30, 0x78]"

text \<open>
  \<open>is_contract_wallet(address)\<close>: the \<open>try\<close> body converts the address, reads the code
  at it from the node at \<open>ENV.RPC_URL\<close> and compares it with \<open>b'0x'\<close>; the handler logs
  and returns \<open>False\<close>. The result comes with what was logged.
\<close>

definition is_contract_wallet :: "chain \<Rightarrow> ENV \<Rightarrow> str \<Rightarrow> bool \<times> log_entry list" where
  "is_contract_wallet w3 env address =
     (case to_checksum_address w3 address of
        Inl e \<Rightarrow> (False, [LogError (py ''Error checking wallet type: '' @ e)])
      | Inr checksum_address \<Rightarrow>
          (case get_code w3 (RPC_URL env) checksum_address of
             Inl e \<Rightarrow> (False, [LogError (py ''Error checking wallet type: '' @ e)])
           | Inr code \<Rightarrow> (code \<noteq> b0x, [])))"

section \<open>Bridge protocol client\<close>

text \<open>The dict \<open>{'success': False, 'error': msg}\<close>.\<close>

definition failure :: "str \<Rightarrow> json" where
  "failure msg = JObj [(py ''success'', JBool False), (py ''error'', JStr msg)]"

text \<open>
  \<open>run_clob_bridge(action, payload)\<close>. \<open>Inl\<close> is an exception that leaves the function:
  the only handler catches \<open>json.JSONDecodeError\<close>, so a failure to start the process and
  a \<open>UnicodeDecodeError\<close> of \<open>decode()\<close> propagate. In \<open>stderr.decode() or stdout.decode()\<close>
  the second operand is evaluated only when the first is the empty string.
\<close>

definition run_clob_bridge :: "os \<Rightarrow> str \<Rightarrow> pydict \<Rightarrow> exc + json" where
  "run_clob_bridge sys action payload =
     (let node_path = (case which sys (py ''node'') of None \<Rightarrow> [] | Some p \<Rightarrow> p) in
      if node_path = [] then
        Inr (failure (py ''Node.js is required for CLOB execution. Install Node.js >=18.''))
      else if \<not> script_exists sys then
        Inr (failure (py ''CLOB bridge script not found at '' @ script_path sys))
      else
        (case create_subprocess_exec sys node_path (script_path sys) (action, payload) of
           Inl e \<Rightarrow> Inl e
         | Inr proc \<Rightarrow>
             if returncode proc \<noteq> 0 then
               (case decode (stderr proc) of
                  None \<Rightarrow> Inl UnicodeDecodeError
                | Some err \<Rightarrow>
                    (case (if err \<noteq> [] then Some err else decode (stdout proc)) of
                       None \<Rightarrow> Inl UnicodeDecodeError
                     | Some output \<Rightarrow>
                         (let error_output = strip output in
                          Inr (failure (if error_output \<noteq> [] then error_output
                                        else py ''CLOB bridge failed'')))))
             else
               (case decode (stdout proc) of
                  None \<Rightarrow> Inl UnicodeDecodeError
                | Some out \<Rightarrow>
                    (case json_loads (if out \<noteq> [] then out else py ''{}'') of
                       None \<Rightarrow> Inr (failure (py ''Invalid response from CLOB bridge''))
                     | Some response \<Rightarrow> Inr response))))"

section \<open>The client\<close>

text \<open>An account made by \<open>Account.from_key\<close>, known by the key it was made from.\<close>

datatype LocalAccount = LocalAccount str

record ClobClient =
  host :: str
  chain_id :: int
  wallet :: LocalAccount
  api_creds :: pydict
  signature_type :: str
  proxy_wallet :: "str option"
  api_key :: pyval
  api_secret :: pyval
  api_passphrase :: pyval

text \<open>
  \<open>ClobClient.__init__\<close>. \<open>api_creds\<close> and \<open>proxy_wallet\<close> are \<open>Optional\<close>; an absent or
  empty \<open>api_creds\<close> gives the empty dict and \<open>None\<close> for the three credentials.
\<close>

definition ClobClient_init ::
  "str \<Rightarrow> int \<Rightarrow> LocalAccount \<Rightarrow> pydict option \<Rightarrow> str \<Rightarrow> str option \<Rightarrow> ClobClient" where
  "ClobClient_init host' chain_id' wallet' api_creds' signature_type' proxy_wallet' =
     (let creds = (case api_creds' of None \<Rightarrow> [] | Some d \<Rightarrow> d) in
      \<lparr> host = rstrip (py ''/'') host',
        chain_id = chain_id',
        wallet = wallet',
        api_creds = creds,
        signature_type = signature_type',
        proxy_wallet = proxy_wallet',
        api_key = (if creds \<noteq> [] then get creds (py ''key'') else PNone),
        api_secret = (if creds \<noteq> [] then get creds (py ''secret'') else PNone),
        api_passphrase = (if creds \<noteq> [] then get creds (py ''passphrase'') else PNone) \<rparr>)"

text \<open>
  The methods \<open>create_api_key\<close> and \<open>derive_api_key\<close> of the client. A call raises an
  \<open>Exception\<close> \<open>e\<close> (\<open>Inl\<close> of \<open>str(e)\<close>) or returns a dict. \<open>ClobClient_api\<close> is what the
  class defines: both return the empty dict.
\<close>

record api =
  create_api_key :: "ClobClient \<Rightarrow> str + pydict"
  derive_api_key :: "ClobClient \<Rightarrow> str + pydict"

definition ClobClient_api :: api where
  "ClobClient_api = \<lparr> create_api_key = (\<lambda>self. Inr []), derive_api_key = (\<lambda>self. Inr []) \<rparr>"

text \<open>
  \<open>post_order\<close> builds the payload and hands it to the bridge. \<open>post_order_payload\<close> is the
  dict bound to \<open>payload\<close>; a \<open>None\<close> of an \<open>Optional[str]\<close> is \<open>PNone\<close> in it.
\<close>

definition post_order_payload :: "ENV \<Rightarrow> ClobClient \<Rightarrow> pydict option \<Rightarrow> str \<Rightarrow> pydict" where
  "post_order_payload env self signed_order order_type =
     (let order = (case signed_order of None \<Rightarrow> [] | Some d \<Rightarrow> d);
          order_args =
            [(py ''side'', get order (py ''side'')),
             (py ''tokenID'', py_or (get order (py ''tokenID'')) (get order (py ''tokenId''))),
             (py ''amount'', get order (py ''amount'')),
             (py ''price'', get order (py ''price''))]
      in [(py ''host'', PStr (host self)),
          (py ''chainId'', PInt (chain_id self)),
          (py ''signatureType'', PStr (signature_type self)),
          (py ''funderAddress'', (case proxy_wallet self of None \<Rightarrow> PNone | Some a \<Rightarrow> PStr a)),
          (py ''privateKey'', PStr (PRIVATE_KEY env)),
          (py ''orderType'', PStr order_type),
          (py ''order'', PDict order_args)])"

definition post_order ::
  "os \<Rightarrow> ENV \<Rightarrow> ClobClient \<Rightarrow> pydict option \<Rightarrow> str \<Rightarrow> exc + json" where
  "post_order sys env self signed_order order_type =
     run_clob_bridge sys (py ''post_order'') (post_order_payload env self signed_order order_type)"

section \<open>Client construction\<close>

text \<open>
  \<open>create_clob_client()\<close>. \<open>from_key\<close> is \<open>Account.from_key\<close>, which raises on a malformed
  key; that exception leaves the function (\<open>Inl\<close>). Otherwise the client is returned with
  what was logged on the way. The classifier is awaited before the override is tested;
  \<open>if signature_override\<close> holds for a non-empty string only, so an unset variable and
  an empty one are both read as \<open>[]\<close>. The two credential methods are called on the
  initial client; the handler around them catches every \<open>Exception\<close>.
\<close>

definition create_clob_client ::
  "chain \<Rightarrow> os \<Rightarrow> (str \<Rightarrow> str + LocalAccount) \<Rightarrow> api \<Rightarrow> ENV
     \<Rightarrow> str + ClobClient \<times> log_entry list" where
  "create_clob_client w3 sys from_key methods env =
     (let chain_id' = 137;
          host' = CLOB_HTTP_URL env
      in case from_key (PRIVATE_KEY env) of
           Inl e \<Rightarrow> Inl e
         | Inr account \<Rightarrow>
             (let signature_override =
                    (case getenv sys (py ''CLOB_SIGNATURE_TYPE'') of None \<Rightarrow> [] | Some v \<Rightarrow> v);
                  (is_proxy_contract, log1) = is_contract_wallet w3 env (PROXY_WALLET env);
                  (signature_type', log2) =
                    (if signature_override \<noteq> [] then
                       (signature_override,
                        [LogInfo (py ''Using CLOB_SIGNATURE_TYPE override: '' @ signature_override)])
                     else
                       (if is_proxy_contract then py ''POLY_PROXY'' else py ''EOA'',
                        [LogInfo (py ''Wallet type detected: ''
                                  @ (if is_proxy_contract then py ''Contract (POLY_PROXY)''
                                     else py ''EOA (Externally Owned Account)''))]));
                  clob_client =
                    ClobClient_init host' chain_id' account None signature_type'
                      (if is_proxy_contract then Some (PROXY_WALLET env) else None);
                  (creds, log3) =
                    (case create_api_key methods clob_client of
                       Inl e \<Rightarrow> ([], [LogError (py ''Failed to create/derive API key: '' @ e)])
                     | Inr created \<Rightarrow>
                         if \<not> truthy (get created (py ''key'')) then
                           (case derive_api_key methods clob_client of
                              Inl e \<Rightarrow>
                                ([], [LogError (py ''Failed to create/derive API key: '' @ e)])
                            | Inr derived \<Rightarrow> (derived, []))
                         else (created, []));
                  clob_client' =
                    ClobClient_init host' chain_id' account (Some creds) signature_type'
                      (if is_proxy_contract then Some (PROXY_WALLET env) else None)
              in Inr (clob_client', log1 @ log2 @ log3)))"

section \<open>Example inputs\<close>

definition env0 :: ENV where
  "env0 = \<lparr> RPC_URL = py ''https://polygon-rpc.com'',
            CLOB_HTTP_URL = py ''https://clob.polymarket.com/'',
            PRIVATE_KEY = py ''0x01'',
            PROXY_WALLET = py ''0xAb5801a7D398351b8bE11C439e05C5B3259aeC9B'' \<rparr>"

text \<open>
  Two nodes: one at which no address has code (every address is an externally-owned
  account), one at which every address has the code \<open>0x6080\<close>.
\<close>

definition chain_no_code :: chain where
  "chain_no_code = \<lparr> to_checksum_address = (\<lambda>a. Inr a), get_code = (\<lambda>url a. Inr []) \<rparr>"

definition chain_contract :: chain where
  "chain_contract =
     \<lparr> to_checksum_address = (\<lambda>a. Inr a), get_code = (\<lambda>url a. Inr [0x60, 0x80]) \<rparr>"

text \<open>
  A system with Node.js and the bridge script installed, where \<open>CLOB_SIGNATURE_TYPE\<close> is
  \<open>override\<close> and the bridge exits with status \<open>rc\<close> having written \<open>out\<close> and \<open>err\<close>.
\<close>

definition system :: "str option \<Rightarrow> int \<Rightarrow> bytes \<Rightarrow> bytes \<Rightarrow> os" where
  "system override rc out err =
     \<lparr> getenv = (\<lambda>name. if name = py ''CLOB_SIGNATURE_TYPE'' then override else None),
       which = (\<lambda>cmd. if cmd = py ''node'' then Some (py ''/usr/bin/node'') else None),
       script_path = py ''/app/scripts/clob_bridge.mjs'',
       script_exists = True,
       create_subprocess_exec =
         (\<lambda>node_path script request. Inr \<lparr> returncode = rc, stdout = out, stderr = err \<rparr>) \<rparr>"

definition from_key0 :: "str \<Rightarrow> str + LocalAccount" where
  "from_key0 key = Inr (LocalAccount key)"

text \<open>Credential methods: creation finds no key and derivation returns the key \<open>abc\<close>.\<close>

definition api_derive_abc :: api where
  "api_derive_abc =
     \<lparr> create_api_key = (\<lambda>self. Inr []),
       derive_api_key = (\<lambda>self. Inr [(py ''key'', PStr (py ''abc''))]) \<rparr>"

text \<open>Credential methods: creation raises.\<close>

definition api_create_raises :: api where
  "api_create_raises =
     \<lparr> create_api_key = (\<lambda>self. Inl (py ''401 Unauthorized'')),
       derive_api_key = (\<lambda>self. Inr [(py ''key'', PStr (py ''abc''))]) \<rparr>"

text \<open>A client for an externally-owned account, without credentials.\<close>

definition client0 :: ClobClient where
  "client0 =
     ClobClient_init (CLOB_HTTP_URL env0) 137 (LocalAccount (PRIVATE_KEY env0)) None
       (py ''EOA'') None"

text \<open>
  The client that \<open>create_clob_client\<close> returns when \<open>CLOB_SIGNATURE_TYPE\<close> is \<open>EOA\<close> and
  the proxy wallet is classified as a contract.
\<close>

definition client_override_eoa :: ClobClient where
  "client_override_eoa =
     \<lparr> host = py ''https://clob.polymarket.com'',
       chain_id = 137,
       wallet = LocalAccount (py ''0x01''),
       api_creds = [],
       signature_type = py ''EOA'',
       proxy_wallet = Some (py ''0xAb5801a7D398351b8bE11C439e05C5B3259aeC9B''),
       api_key = PNone,
       api_secret = PNone,
       api_passphrase = PNone \<rparr>"


section \<open>Predicates of the specification\<close>



section \<open>Properties of the JSON scanner\<close>

lemma match_frac_length: "match_frac s = (f, r) \<Longrightarrow> length r \<le> length s"
  by (auto simp: match_frac_def length_dropWhile_le le_SucI split: list.splits if_splits)

lemma match_exponent_length: "match_exponent s = (e, r) \<Longrightarrow> length r \<le> length s"
proof (cases s)
  case Nil
  then show "match_exponent s = (e, r) \<Longrightarrow> length r \<le> length s"
    by (simp add: match_exponent_def)
next
  case (Cons c s1)
  have "length (dropWhile is_digit (drop n s1)) \<le> Suc (length s1)" for n
    using length_dropWhile_le [of is_digit "drop n s1"] by simp
  with Cons show "match_exponent s = (e, r) \<Longrightarrow> length r \<le> length s"
    by (auto simp: match_exponent_def Let_def split: if_splits)
qed

lemma match_number_length: "match_number s = Some (v, rest) \<Longrightarrow> length rest < length s"
proof -
  assume a: "match_number s = Some (v, rest)"
  define minus where "minus = (case s of [] \<Rightarrow> [] | c # _ \<Rightarrow> if c = 0x2D then [c] else [])"
  define s1 where "s1 = drop (length minus) s"
  from a obtain d ds where s1: "s1 = d # ds"
    by (cases s1) (auto simp: match_number_def Let_def minus_def s1_def)
  define integer where "integer = (if d = 0x30 then [d] else d # takeWhile is_digit ds)"
  define s2 where "s2 = drop (length integer) (d # ds)"
  obtain frac s3 where f: "match_frac s2 = (frac, s3)" by (cases "match_frac s2")
  obtain expo s4 where e: "match_exponent s3 = (expo, s4)" by (cases "match_exponent s3")
  from a have "rest = s4"
    unfolding match_number_def minus_def [symmetric] Let_def s1_def [symmetric] s1 list.case
      integer_def [symmetric] s2_def [symmetric] f e prod.case
    by (auto split: if_splits)
  moreover have "length s1 \<le> length s" by (simp add: s1_def)
  moreover have "length s2 < length s1"
    by (simp add: s2_def s1 integer_def)
  moreover note match_frac_length [OF f] match_exponent_length [OF e]
  ultimately show ?thesis by simp
qed

lemma literal_length:
  "take n s = lit \<Longrightarrow> length lit = n \<Longrightarrow> 0 < n \<Longrightarrow> length (drop n s) < length s"
  by (cases "n \<le> length s") auto

lemma JSONArray_JSONObject_length:
  "(\<forall>vs v rest. JSONArray vs s = Some (v, rest) \<longrightarrow> length rest < length s)
   \<and> (\<forall>ps v rest. JSONObject ps s = Some (v, rest) \<longrightarrow> length rest < length s)"
proof (induction "length s" arbitrary: s rule: less_induct)
  case less
  have arr: "length rest < length s"
    if "JSONArray vs t = Some (v, rest)" and "length t < length s" for vs t v rest
    using less.hyps [OF that(2)] that by (meson less_trans)
  have obj: "length rest < length s"
    if "JSONObject ps t = Some (v, rest)" and "length t < length s" for ps t v rest
    using less.hyps [OF that(2)] that by (meson less_trans)
  have "length rest < length s" if a: "JSONArray vs s = Some (v, rest)" for vs v rest
  proof -
    from a obtain v1 r1 where s1: "scan_once s = Some (v1, r1)" and g: "length r1 < length s"
      by (cases "scan_once s") (auto simp: JSONArray.simps [of vs s] split: if_splits)
    from a s1 g obtain c r2 where w: "skip_ws r1 = c # r2"
      by (cases "skip_ws r1") (simp_all add: JSONArray.simps [of vs s])
    from skip_ws_Cons_length [OF w] g have l2: "length r2 < length s" by simp
    with skip_ws_length [of r2] have l3: "length (skip_ws r2) < length s" by simp
    from a s1 g w have
      "rest = r2 \<or> JSONArray (vs @ [v1]) (skip_ws r2) = Some (v, rest)"
      by (simp add: JSONArray.simps [of vs s] split: if_splits)
    with l2 arr [OF _ l3] show ?thesis by blast
  qed
  moreover
  have "length rest < length s" if a: "JSONObject ps s = Some (v, rest)" for ps v rest
  proof -
    from a obtain key r0 where k: "scanstring s = Some (key, r0)"
      by (cases "scanstring s") (auto simp: JSONObject.simps [of ps s])
    from a k obtain colon r1 where w1: "skip_ws r0 = colon # r1" and c: "colon = 0x3A"
      by (cases "skip_ws r0") (auto simp: JSONObject.simps [of ps s] split: if_splits)
    from a k w1 c obtain v1 r2 where s1: "scan_once (skip_ws r1) = Some (v1, r2)"
      and g: "length r2 < length s"
      by (cases "scan_once (skip_ws r1)")
         (auto simp: JSONObject.simps [of ps s] split: if_splits)
    from a k w1 c s1 g obtain d r3 where w3: "skip_ws r2 = d # r3"
      by (cases "skip_ws r2") (simp_all add: JSONObject.simps [of ps s])
    from skip_ws_Cons_length [OF w3] g have l3: "length r3 < length s" by simp
    from a k w1 c s1 g w3 have
      "rest = r3 \<or> (\<exists>q r4. skip_ws r3 = q # r4
                       \<and> JSONObject (ps @ [(key, v1)]) r4 = Some (v, rest))"
      by (cases "skip_ws r3") (auto simp: JSONObject.simps [of ps s] split: if_splits)
    then show ?thesis
    proof
      assume "rest = r3"
      with l3 show ?thesis by simp
    next
      assume "\<exists>q r4. skip_ws r3 = q # r4 \<and> JSONObject (ps @ [(key, v1)]) r4 = Some (v, rest)"
      then obtain q r4 where w4: "skip_ws r3 = q # r4"
        and j: "JSONObject (ps @ [(key, v1)]) r4 = Some (v, rest)"
        by blast
      from skip_ws_Cons_length [OF w4] l3 have "length r4 < length s" by simp
      from obj [OF j this] show ?thesis .
    qed
  qed
  ultimately show ?case by blast
qed

lemma scan_once_length:
  assumes "scan_once s = Some (v, rest)"
  shows "length rest < length s"
proof -
  have str: "length rest < Suc (length cs)" if "scanstring cs = Some (k, rest)" for cs k
    using scanstring_length [OF that] by simp
  have obj: "length rest < Suc (length cs)"
    if "skip_ws cs = d # r" and "JSONObject [] r = Some (v, rest)" for cs d r
    using JSONArray_JSONObject_length [of r, THEN conjunct2, rule_format, OF that(2)]
      skip_ws_Cons_length [OF that(1)]
    by simp
  have arr: "length rest < Suc (length cs)"
    if "skip_ws cs = d # r" and "JSONArray [] (d # r) = Some (v, rest)" for cs d r
    using JSONArray_JSONObject_length [of "d # r", THEN conjunct1, rule_format, OF that(2)]
      skip_ws_Cons_length [OF that(1)]
    by simp
  have ws: "length rest < Suc (length cs)" if "skip_ws cs = d # rest" for cs d
    using skip_ws_Cons_length [OF that] by simp
  have num: "length rest < Suc (length cs)" if "match_number (c # cs) = Some (v, rest)" for c cs
    using match_number_length [OF that] by simp
  have lit: "length (drop n cs) < Suc (length cs)" for n and cs :: str
    by simp
  from assms show ?thesis
    by (simp only: scan_once.simps [of s] split: if_splits option.splits list.splits
          prod.splits)
       (auto intro: str obj arr ws num simp: lit)
qed

text \<open>The two length tests never fail: the scanner satisfies the equations without them.\<close>

lemma JSONArray_unguarded:
  "JSONArray vs s =
     (case scan_once s of
        None \<Rightarrow> None
      | Some (v, rest) \<Rightarrow>
          (case skip_ws rest of
             [] \<Rightarrow> None
           | nextchar # rest' \<Rightarrow>
               if nextchar = 0x5D then Some (JArr (vs @ [v]), rest')
               else if nextchar = 0x2C then JSONArray (vs @ [v]) (skip_ws rest')
               else None))"
proof (cases "scan_once s")
  case None
  then show ?thesis by (simp add: JSONArray.simps [of vs s])
next
  case (Some r)
  obtain v rest where r: "r = (v, rest)" by (cases r)
  from scan_once_length [OF Some [unfolded r]] Some r show ?thesis
    by (simp add: JSONArray.simps [of vs s])
qed

lemma JSONObject_unguarded:
  "JSONObject pairs s =
     (case scanstring s of
        None \<Rightarrow> None
      | Some (key, rest) \<Rightarrow>
          (case skip_ws rest of
             [] \<Rightarrow> None
           | colon # rest1 \<Rightarrow>
               if colon \<noteq> 0x3A then None
               else
                 (case scan_once (skip_ws rest1) of
                    None \<Rightarrow> None
                  | Some (v, rest2) \<Rightarrow>
                      (case skip_ws rest2 of
                         [] \<Rightarrow> None
                       | nextchar # rest3 \<Rightarrow>
                           if nextchar = 0x7D
                             then Some (JObj (dict (pairs @ [(key, v)])), rest3)
                           else if nextchar = 0x2C then
                             (case skip_ws rest3 of
                                [] \<Rightarrow> None
                              | q # rest4 \<Rightarrow>
                                  if q = 0x22 then JSONObject (pairs @ [(key, v)]) rest4
                                  else None)
                           else None))))"
proof -
  have "length rest2 < length s"
    if "scanstring s = Some (key, rest)" and "skip_ws rest = colon # rest1"
      and "scan_once (skip_ws rest1) = Some (v, rest2)" for key rest colon rest1 v rest2
    using scanstring_length [OF that(1)] skip_ws_Cons_length [OF that(2)]
      skip_ws_length [of rest1] scan_once_length [OF that(3)]
    by simp
  then show ?thesis
    by (simp add: JSONObject.simps [of pairs s] split: option.splits list.splits)
qed

section \<open>Properties of the wallet classifier\<close>

text \<open>
  What the classifier returns: \<open>False\<close> when the address cannot be converted or the node
  raises, and otherwise whether the code differs from \<open>b'0x'\<close>.
\<close>

lemma is_contract_wallet_raises:
  "to_checksum_address w3 address = Inl e \<Longrightarrow> fst (is_contract_wallet w3 env address) = False"
  "to_checksum_address w3 address = Inr checksum_address
     \<Longrightarrow> get_code w3 (RPC_URL env) checksum_address = Inl e
     \<Longrightarrow> fst (is_contract_wallet w3 env address) = False"
  by (simp_all add: is_contract_wallet_def)

lemma is_contract_wallet_code:
  "to_checksum_address w3 address = Inr checksum_address
     \<Longrightarrow> get_code w3 (RPC_URL env) checksum_address = Inr code
     \<Longrightarrow> is_contract_wallet w3 env address = (code \<noteq> b0x, [])"
  by (simp add: is_contract_wallet_def)

text \<open>
  C1. The classifier is meant to return true exactly when the code at the address is
  non-empty. The node returns the empty byte string for an address without code, and the
  source compares with the two-byte string \<open>b'0x'\<close>: at an address without code the
  classifier returns \<open>True\<close>.
\<close>

theorem is_contract_wallet_empty_code:
  "get_code chain_no_code (RPC_URL env0) (PROXY_WALLET env0) = Inr []
   \<and> is_contract_wallet chain_no_code env0 (PROXY_WALLET env0) = (True, [])"
  by (simp add: is_contract_wallet_def chain_no_code_def b0x_def)

section \<open>Properties of the bridge protocol client\<close>

text \<open>Once the process has run, the result depends on its exit status and output only.\<close>

lemma run_clob_bridge_spawned:
  assumes "which sys (py ''node'') = Some node_path" and "node_path \<noteq> []"
    and "script_exists sys"
    and "create_subprocess_exec sys node_path (script_path sys) (action, payload) = Inr proc"
  shows "run_clob_bridge sys action payload =
     (if returncode proc \<noteq> 0 then
        (case decode (stderr proc) of
           None \<Rightarrow> Inl UnicodeDecodeError
         | Some err \<Rightarrow>
             (case (if err \<noteq> [] then Some err else decode (stdout proc)) of
                None \<Rightarrow> Inl UnicodeDecodeError
              | Some output \<Rightarrow>
                  Inr (failure (if strip output \<noteq> [] then strip output
                                else py ''CLOB bridge failed''))))
      else
        (case decode (stdout proc) of
           None \<Rightarrow> Inl UnicodeDecodeError
         | Some out \<Rightarrow>
             (case json_loads (if out \<noteq> [] then out else py ''{}'') of
                None \<Rightarrow> Inr (failure (py ''Invalid response from CLOB bridge''))
              | Some response \<Rightarrow> Inr response)))"
  using assms by (simp add: run_clob_bridge_def Let_def split: option.splits)



lemma system_simps:
  "which (system override rc out err) (py ''node'') = Some (py ''/usr/bin/node'')"
  "script_exists (system override rc out err)"
  "create_subprocess_exec (system override rc out err) node_path script request
     = Inr \<lparr> returncode = rc, stdout = out, stderr = err \<rparr>"
  "getenv (system override rc out err) (py ''CLOB_SIGNATURE_TYPE'') = override"
  by (simp_all add: system_def)

lemma node_path_nonempty: "py ''/usr/bin/node'' \<noteq> []"
  by (simp add: py_def)






lemma decode_bad_signature: "decode (ascii ''bad signature'') = Some (py ''bad signature'')"
  by code_simp

lemma strip_bad_signature: "strip (py ''bad signature'') = py ''bad signature''"
  by (simp add: strip_def isspace_def py_def)




text \<open>
  Outside the amended claim: output that is not valid UTF-8 makes \<open>decode()\<close> raise, and
  no handler of \<open>run_clob_bridge\<close> catches that exception.
\<close>

lemma run_clob_bridge_undecodable_output:
  "run_clob_bridge (system None 0 [0xFF] []) (py ''post_order'') [] = Inl UnicodeDecodeError"
proof -
  have "decode [0xFF] = None" by code_simp
  then show ?thesis
    by (simp add: run_clob_bridge_spawned [OF system_simps(1) node_path_nonempty
          system_simps(2) system_simps(3)])
qed

text \<open>
  C6 (as stated, refuted). The bridge exits with status 1 and \<open>bad signature\<close> followed
  by a line feed on standard error. The error returned is \<open>bad signature\<close>, which is not
  the content of standard error.
\<close>

theorem run_clob_bridge_stderr_stripped_counterexample:
  "decode (stderr \<lparr> returncode = 1, stdout = [], stderr = ascii ''bad signature'' @ [0x0A] \<rparr>)
     = Some (py ''bad signature'' @ [0x0A])
   \<and> run_clob_bridge (system None 1 [] (ascii ''bad signature'' @ [0x0A])) (py ''post_order'') []
       = Inr (failure (py ''bad signature''))
   \<and> failure (py ''bad signature'') \<noteq> failure (py ''bad signature'' @ [0x0A])"
proof -
  have d: "decode (ascii ''bad signature'' @ [0x0A]) = Some (py ''bad signature'' @ [0x0A])"
    by code_simp
  have s: "strip (py ''bad signature'' @ [0x0A]) = py ''bad signature''"
    by (simp add: strip_def isspace_def py_def)
  have n: "py ''bad signature'' @ [0x0A] \<noteq> []" "py ''bad signature'' \<noteq> []"
    by (simp_all add: py_def)
  have "run_clob_bridge (system None 1 [] (ascii ''bad signature'' @ [0x0A])) (py ''post_order'') []
          = Inr (failure (py ''bad signature''))"
    using n
    by (simp add: run_clob_bridge_spawned [OF system_simps(1) node_path_nonempty
          system_simps(2) system_simps(3)] d s)
  with d show ?thesis by (simp add: failure_def)
qed

text \<open>
  C6 (amended). When the bridge exits with a non-zero status, the error is taken from
  the decoded standard error when that text is non-empty and from the decoded standard
  output otherwise, with white space removed at both ends; when nothing is left, it is
  the generic message \<open>CLOB bridge failed\<close>.
\<close>

theorem run_clob_bridge_nonzero_exit:
  assumes "which sys (py ''node'') = Some node_path" and "node_path \<noteq> []"
    and "script_exists sys"
    and "create_subprocess_exec sys node_path (script_path sys) (action, payload) = Inr proc"
    and "returncode proc \<noteq> 0" and "decode (stderr proc) = Some err"
    and "err \<noteq> [] \<or> decode (stdout proc) = Some out"
  shows "run_clob_bridge sys action payload =
           Inr (failure (let error_output = strip (if err \<noteq> [] then err else out)
                         in if error_output \<noteq> [] then error_output
                            else py ''CLOB bridge failed''))"
  using assms(5-7)
  by (auto simp: run_clob_bridge_spawned [OF assms(1-4)] Let_def)

theorem run_clob_bridge_nonzero_exit_witness:
  "returncode \<lparr> returncode = 1, stdout = [], stderr = ascii ''bad signature'' \<rparr> \<noteq> 0
   \<and> decode (stderr \<lparr> returncode = 1, stdout = [], stderr = ascii ''bad signature'' \<rparr>)
       = Some (py ''bad signature'')
   \<and> py ''bad signature'' \<noteq> []
   \<and> run_clob_bridge (system None 1 [] (ascii ''bad signature'')) (py ''post_order'') []
       = Inr (failure (py ''bad signature''))"
proof -
  let ?proc = "\<lparr> returncode = 1, stdout = [], stderr = ascii ''bad signature'' \<rparr>"
  have r: "returncode ?proc \<noteq> 0" by simp
  have d: "decode (stderr ?proc) = Some (py ''bad signature'')"
    by (simp add: decode_bad_signature)
  have n: "py ''bad signature'' \<noteq> []" by (simp add: py_def)
  then have c: "py ''bad signature'' \<noteq> [] \<or> decode (stdout ?proc) = Some []" by simp
  show ?thesis
    using run_clob_bridge_nonzero_exit [OF system_simps(1) node_path_nonempty system_simps(2)
        system_simps(3) r d c, of None "py ''post_order''" "[]"] r d n
    by (simp add: strip_bad_signature)
qed

section \<open>Properties of order submission\<close>





lemma payload_keys:
  "py ''order'' \<noteq> py ''host''" "py ''order'' \<noteq> py ''chainId''"
  "py ''order'' \<noteq> py ''signatureType''" "py ''order'' \<noteq> py ''funderAddress''"
  "py ''order'' \<noteq> py ''privateKey''" "py ''order'' \<noteq> py ''orderType''"
  "py ''funderAddress'' \<noteq> py ''host''" "py ''funderAddress'' \<noteq> py ''chainId''"
  "py ''funderAddress'' \<noteq> py ''signatureType''"
  "py ''chainId'' \<noteq> py ''host''"
  by (simp_all add: py_def)

lemma payload_order:
  "get (post_order_payload env self signed_order order_type) (py ''order'') =
     (let order = (case signed_order of None \<Rightarrow> [] | Some d \<Rightarrow> d) in
      PDict [(py ''side'', get order (py ''side'')),
             (py ''tokenID'', py_or (get order (py ''tokenID'')) (get order (py ''tokenId''))),
             (py ''amount'', get order (py ''amount'')),
             (py ''price'', get order (py ''price''))])"
  by (simp add: post_order_payload_def get_def Let_def payload_keys)

lemma payload_funderAddress:
  "get (post_order_payload env self signed_order order_type) (py ''funderAddress'') =
     (case proxy_wallet self of None \<Rightarrow> PNone | Some a \<Rightarrow> PStr a)"
  by (simp add: post_order_payload_def get_def Let_def payload_keys)

lemma payload_chainId:
  "get (post_order_payload env self signed_order order_type) (py ''chainId'')
     = PInt (chain_id self)"
  by (simp add: post_order_payload_def get_def Let_def payload_keys)

text \<open>
  C10 (as stated, refuted). The order carries both field names, \<open>tokenID\<close> with the empty
  string and \<open>tokenId\<close> with \<open>123\<close>. The field \<open>tokenID\<close> is present, and the token
  identifier of the payload is taken from \<open>tokenId\<close>.
\<close>

theorem post_order_token_id_counterexample:
  "map_of [(py ''tokenID'', PStr []), (py ''tokenId'', PStr (py ''123''))] (py ''tokenID'')
     = Some (PStr [])
   \<and> get (post_order_payload env0 client0
            (Some [(py ''tokenID'', PStr []), (py ''tokenId'', PStr (py ''123''))]) (py ''FOK''))
         (py ''order'')
       = PDict [(py ''side'', PNone), (py ''tokenID'', PStr (py ''123'')),
                (py ''amount'', PNone), (py ''price'', PNone)]
   \<and> PStr (py ''123'') \<noteq> PStr []"
  by (simp only: payload_order) (simp add: py_or_def get_def py_def)

text \<open>
  C10 (amended). \<open>post_order\<close> treats an absent order as the empty order: the payload and
  the outcome are those of \<open>{}\<close>, and the four order fields of the payload are \<open>None\<close>.
  For an order that is given, the token identifier is the value of \<open>tokenID\<close> when that
  value is truthy (not \<open>None\<close>, empty, zero or false) and the value of \<open>tokenId\<close> (or
  \<open>None\<close>) otherwise.
\<close>

theorem post_order_total_in_order:
  "post_order_payload env self None order_type = post_order_payload env self (Some []) order_type
   \<and> post_order sys env self None order_type = post_order sys env self (Some []) order_type
   \<and> get (post_order_payload env self None order_type) (py ''order'')
       = PDict [(py ''side'', PNone), (py ''tokenID'', PNone),
                (py ''amount'', PNone), (py ''price'', PNone)]
   \<and> get (post_order_payload env self (Some order) order_type) (py ''order'')
       = PDict [(py ''side'', get order (py ''side'')),
                (py ''tokenID'',
                   if truthy (get order (py ''tokenID'')) then get order (py ''tokenID'')
                   else get order (py ''tokenId'')),
                (py ''amount'', get order (py ''amount'')),
                (py ''price'', get order (py ''price''))]"
proof -
  have "post_order_payload env self None order_type
          = post_order_payload env self (Some []) order_type"
    by (simp add: post_order_payload_def)
  moreover from this
  have "post_order sys env self None order_type = post_order sys env self (Some []) order_type"
    by (simp add: post_order_def)
  moreover have "get (post_order_payload env self None order_type) (py ''order'')
       = PDict [(py ''side'', PNone), (py ''tokenID'', PNone),
                (py ''amount'', PNone), (py ''price'', PNone)]"
    by (simp only: payload_order) (simp add: py_or_def get_def)
  moreover have "get (post_order_payload env self (Some order) order_type) (py ''order'')
       = PDict [(py ''side'', get order (py ''side'')),
                (py ''tokenID'',
                   if truthy (get order (py ''tokenID'')) then get order (py ''tokenID'')
                   else get order (py ''tokenId'')),
                (py ''amount'', get order (py ''amount'')),
                (py ''price'', get order (py ''price''))]"
    by (simp only: payload_order) (simp add: py_or_def)
  ultimately show ?thesis by blast
qed

section \<open>Properties of client construction\<close>

text \<open>
  What \<open>create_clob_client\<close> returns once the account is made: the classifier's verdict
  \<open>is_proxy_contract\<close> decides the proxy wallet, the override or the verdict the signature
  type, and the two credential methods, applied to the initial client, the credentials.
\<close>

lemma create_clob_client_returns:
  assumes "from_key (PRIVATE_KEY env) = Inr account"
    and "is_contract_wallet web env (PROXY_WALLET env) = (is_proxy_contract, log1)"
    and "signature_override =
           (case getenv sys (py ''CLOB_SIGNATURE_TYPE'') of None \<Rightarrow> [] | Some v \<Rightarrow> v)"
    and "signature_type' =
           (if signature_override \<noteq> [] then signature_override
            else if is_proxy_contract then py ''POLY_PROXY'' else py ''EOA'')"
    and "proxy_wallet' = (if is_proxy_contract then Some (PROXY_WALLET env) else None)"
    and "initial =
           ClobClient_init (CLOB_HTTP_URL env) 137 account None signature_type' proxy_wallet'"
  shows "\<exists>creds logs.
           create_clob_client web sys from_key methods env
             = Inr (ClobClient_init (CLOB_HTTP_URL env) 137 account (Some creds)
                      signature_type' proxy_wallet', logs)
           \<and> set log1 \<subseteq> set logs
           \<and> (case create_api_key methods initial of
                 Inl e \<Rightarrow>
                   creds = [] \<and> LogError (py ''Failed to create/derive API key: '' @ e) \<in> set logs
               | Inr created \<Rightarrow>
                   if truthy (get created (py ''key'')) then creds = created
                   else (case derive_api_key methods initial of
                           Inl e \<Rightarrow>
                             creds = []
                             \<and> LogError (py ''Failed to create/derive API key: '' @ e) \<in> set logs
                         | Inr derived \<Rightarrow> creds = derived))"
proof -
  define log2 where "log2 =
    (if signature_override \<noteq> [] then
       [LogInfo (py ''Using CLOB_SIGNATURE_TYPE override: '' @ signature_override)]
     else
       [LogInfo (py ''Wallet type detected: ''
                 @ (if is_proxy_contract then py ''Contract (POLY_PROXY)''
                    else py ''EOA (Externally Owned Account)''))])"
  define acquired where "acquired =
    (case create_api_key methods initial of
       Inl e \<Rightarrow> ([], [LogError (py ''Failed to create/derive API key: '' @ e)])
     | Inr created \<Rightarrow>
         if \<not> truthy (get created (py ''key'')) then
           (case derive_api_key methods initial of
              Inl e \<Rightarrow> ([], [LogError (py ''Failed to create/derive API key: '' @ e)])
            | Inr derived \<Rightarrow> (derived, []))
         else (created, []))"
  have resolved:
    "(if signature_override \<noteq> [] then
        (signature_override,
         [LogInfo (py ''Using CLOB_SIGNATURE_TYPE override: '' @ signature_override)])
      else
        (if is_proxy_contract then py ''POLY_PROXY'' else py ''EOA'',
         [LogInfo (py ''Wallet type detected: ''
                   @ (if is_proxy_contract then py ''Contract (POLY_PROXY)''
                      else py ''EOA (Externally Owned Account)''))]))
     = (signature_type', log2)"
    by (simp add: assms(4) log2_def)
  have run: "create_clob_client web sys from_key methods env
      = Inr (ClobClient_init (CLOB_HTTP_URL env) 137 account (Some (fst acquired))
               signature_type' proxy_wallet', log1 @ log2 @ snd acquired)"
    by (simp only: create_clob_client_def Let_def assms(1) assms(2) assms(3)[symmetric]
          resolved assms(5)[symmetric] assms(6)[symmetric] acquired_def[symmetric]
          sum.case prod.case case_prod_beta fst_conv snd_conv)
  have "case create_api_key methods initial of
          Inl e \<Rightarrow>
            fst acquired = []
            \<and> LogError (py ''Failed to create/derive API key: '' @ e)
                \<in> set (log1 @ log2 @ snd acquired)
        | Inr created \<Rightarrow>
            if truthy (get created (py ''key'')) then fst acquired = created
            else (case derive_api_key methods initial of
                    Inl e \<Rightarrow>
                      fst acquired = []
                      \<and> LogError (py ''Failed to create/derive API key: '' @ e)
                          \<in> set (log1 @ log2 @ snd acquired)
                  | Inr derived \<Rightarrow> fst acquired = derived)"
    by (simp add: acquired_def split: sum.splits)
  with run show ?thesis
    by (intro exI [of _ "fst acquired"] exI [of _ "log1 @ log2 @ snd acquired"]) simp
qed

lemma ClobClient_init_simps:
  "host (ClobClient_init h c w a s p) = rstrip (py ''/'') h"
  "chain_id (ClobClient_init h c w a s p) = c"
  "wallet (ClobClient_init h c w a s p) = w"
  "signature_type (ClobClient_init h c w a s p) = s"
  "proxy_wallet (ClobClient_init h c w a s p) = p"
  "api_creds (ClobClient_init h c w (Some creds) s p) = creds"
  "api_key (ClobClient_init h c w (Some creds) s p) = get creds (py ''key'')"
  by (simp_all add: ClobClient_init_def Let_def get_def)

lemma signature_types_differ: "py ''POLY_PROXY'' \<noteq> py ''EOA''"
  by (simp add: py_def)

lemma create_clob_client_Inr:
  assumes "create_clob_client web sys from_key methods env = Inr (client, logs)"
  obtains account where "from_key (PRIVATE_KEY env) = Inr account"
  using assms by (cases "from_key (PRIVATE_KEY env)") (simp_all add: create_clob_client_def)

lemma is_contract_wallet_chain_contract:
  "is_contract_wallet chain_contract env0 (PROXY_WALLET env0) = (True, [])"
  by (simp add: is_contract_wallet_def chain_contract_def b0x_def)

text \<open>
  C5. When \<open>CLOB_SIGNATURE_TYPE\<close> is set to a non-empty value, the client that
  \<open>create_clob_client\<close> returns has that value as its signature type, whatever the node
  answers about the proxy wallet. (An empty value does not pass \<open>if signature_override\<close>:
  it is not an override.)
\<close>

theorem signature_override_wins:
  assumes "from_key (PRIVATE_KEY env) = Inr account"
    and "getenv sys (py ''CLOB_SIGNATURE_TYPE'') = Some override" and "override \<noteq> []"
  shows "\<exists>client logs. create_clob_client web sys from_key methods env = Inr (client, logs)
                       \<and> signature_type client = override"
proof -
  obtain is_proxy_contract log1
    where "is_contract_wallet web env (PROXY_WALLET env) = (is_proxy_contract, log1)"
    by (cases "is_contract_wallet web env (PROXY_WALLET env)")
  from create_clob_client_returns [where from_key = from_key and env = env and sys = sys
      and methods = methods, OF assms(1) this refl refl refl refl]
  show ?thesis
    using assms(2,3) by (auto simp: ClobClient_init_simps)
qed

theorem signature_override_wins_witness:
  "getenv (system (Some (py ''EOA'')) 0 [] []) (py ''CLOB_SIGNATURE_TYPE'') = Some (py ''EOA'')
   \<and> py ''EOA'' \<noteq> []
   \<and> fst (is_contract_wallet chain_contract env0 (PROXY_WALLET env0))
   \<and> (\<exists>client logs.
         create_clob_client chain_contract (system (Some (py ''EOA'')) 0 [] []) from_key0
           ClobClient_api env0 = Inr (client, logs)
         \<and> signature_type client = py ''EOA'')"
proof -
  have k: "from_key0 (PRIVATE_KEY env0) = Inr (LocalAccount (PRIVATE_KEY env0))"
    by (simp add: from_key0_def)
  have n: "py ''EOA'' \<noteq> []" by (simp add: py_def)
  show ?thesis
    using signature_override_wins [where from_key = from_key0 and env = env0
        and sys = "system (Some (py ''EOA'')) 0 [] []" and web = chain_contract
        and methods = ClobClient_api, OF k system_simps(4) n] n
    by (simp add: system_simps(4) is_contract_wallet_chain_contract)
qed

text \<open>
  C9. Every client that \<open>create_clob_client\<close> returns has chain id 137, and so has every
  payload \<open>post_order\<close> builds from it.
\<close>

theorem chain_id_is_137:
  assumes "create_clob_client web sys from_key methods env = Inr (client, logs)"
  shows "chain_id client = 137
         \<and> get (post_order_payload env' client signed_order order_type) (py ''chainId'')
             = PInt 137"
proof -
  from assms obtain account where k: "from_key (PRIVATE_KEY env) = Inr account"
    by (rule create_clob_client_Inr)
  obtain is_proxy_contract log1
    where "is_contract_wallet web env (PROXY_WALLET env) = (is_proxy_contract, log1)"
    by (cases "is_contract_wallet web env (PROXY_WALLET env)")
  from create_clob_client_returns [where from_key = from_key and env = env and sys = sys
      and methods = methods, OF k this refl refl refl refl] assms
  have "chain_id client = 137"
    by (auto simp: ClobClient_init_simps)
  then show ?thesis by (simp add: payload_chainId)
qed

theorem chain_id_is_137_witness:
  "\<exists>client logs.
     create_clob_client chain_no_code (system None 0 [] []) from_key0 ClobClient_api env0
       = Inr (client, logs)
     \<and> chain_id client = 137
     \<and> get (post_order_payload env0 client None (py ''FOK'')) (py ''chainId'') = PInt 137"
proof -
  have k: "from_key0 (PRIVATE_KEY env0) = Inr (LocalAccount (PRIVATE_KEY env0))"
    by (simp add: from_key0_def)
  obtain is_proxy_contract log1
    where "is_contract_wallet chain_no_code env0 (PROXY_WALLET env0) = (is_proxy_contract, log1)"
    by (cases "is_contract_wallet chain_no_code env0 (PROXY_WALLET env0)")
  from create_clob_client_returns [where from_key = from_key0 and env = env0
      and sys = "system None 0 [] []" and methods = ClobClient_api,
      OF k this refl refl refl refl]
  obtain client logs where
    c: "create_clob_client chain_no_code (system None 0 [] []) from_key0 ClobClient_api env0
          = Inr (client, logs)"
    by blast
  from chain_id_is_137 [OF c, of env0 None "py ''FOK''"] c show ?thesis by blast
qed

text \<open>
  C3 (as stated, refuted). \<open>CLOB_SIGNATURE_TYPE\<close> is \<open>EOA\<close> and the proxy wallet has code.
  The client returned has signature type \<open>EOA\<close> and carries the proxy wallet, so the
  payload of \<open>post_order\<close> has a funder address that is not \<open>None\<close>.
\<close>

theorem funder_address_with_eoa_counterexample:
  "create_clob_client chain_contract (system (Some (py ''EOA'')) 0 [] []) from_key0
     ClobClient_api env0
     = Inr (client_override_eoa, [LogInfo (py ''Using CLOB_SIGNATURE_TYPE override: EOA'')])
   \<and> signature_type client_override_eoa = py ''EOA''
   \<and> signature_type client_override_eoa \<noteq> py ''POLY_PROXY''
   \<and> get (post_order_payload env0 client_override_eoa None (py ''FOK'')) (py ''funderAddress'')
       = PStr (PROXY_WALLET env0)
   \<and> PStr (PROXY_WALLET env0) \<noteq> PNone"
proof -
  have "create_clob_client chain_contract (system (Some (py ''EOA'')) 0 [] []) from_key0
     ClobClient_api env0
     = Inr (client_override_eoa, [LogInfo (py ''Using CLOB_SIGNATURE_TYPE override: EOA'')])"
    by (simp add: create_clob_client_def Let_def from_key0_def system_simps(4)
          is_contract_wallet_chain_contract ClobClient_api_def ClobClient_init_def
          client_override_eoa_def get_def)
       (simp add: env0_def py_def rstrip_def)
  moreover have "signature_type client_override_eoa = py ''EOA''"
    by (simp add: client_override_eoa_def)
  moreover have "get (post_order_payload env0 client_override_eoa None (py ''FOK''))
                   (py ''funderAddress'') = PStr (PROXY_WALLET env0)"
    by (simp add: payload_funderAddress client_override_eoa_def env0_def)
  ultimately show ?thesis
    using signature_types_differ by simp
qed

text \<open>
  C3 (amended). For every client that \<open>create_clob_client\<close> returns and every order, the
  funder address of the payload is not \<open>None\<close> exactly when the classifier took the proxy
  wallet for a contract. When no override is set (the variable is unset or empty), that
  is exactly when the signature type is \<open>POLY_PROXY\<close>, and the funder address is \<open>None\<close>
  exactly when the signature type is \<open>EOA\<close>.
\<close>

theorem funder_address_follows_classifier:
  assumes "create_clob_client web sys from_key methods env = Inr (client, logs)"
  shows "(get (post_order_payload env client signed_order order_type) (py ''funderAddress'')
            \<noteq> PNone)
           = fst (is_contract_wallet web env (PROXY_WALLET env))
         \<and> (getenv sys (py ''CLOB_SIGNATURE_TYPE'') = None
              \<or> getenv sys (py ''CLOB_SIGNATURE_TYPE'') = Some []
            \<longrightarrow> (signature_type client = py ''POLY_PROXY'')
                  = (get (post_order_payload env client signed_order order_type)
                       (py ''funderAddress'') \<noteq> PNone)
                \<and> (signature_type client = py ''EOA'')
                  = (get (post_order_payload env client signed_order order_type)
                       (py ''funderAddress'') = PNone))"
proof -
  from assms obtain account where k: "from_key (PRIVATE_KEY env) = Inr account"
    by (rule create_clob_client_Inr)
  obtain is_proxy_contract log1
    where w: "is_contract_wallet web env (PROXY_WALLET env) = (is_proxy_contract, log1)"
    by (cases "is_contract_wallet web env (PROXY_WALLET env)")
  from create_clob_client_returns [where from_key = from_key and env = env and sys = sys
      and methods = methods, OF k w refl refl refl refl] assms
  have s: "signature_type client =
             (if (case getenv sys (py ''CLOB_SIGNATURE_TYPE'') of None \<Rightarrow> [] | Some v \<Rightarrow> v) \<noteq> []
              then (case getenv sys (py ''CLOB_SIGNATURE_TYPE'') of None \<Rightarrow> [] | Some v \<Rightarrow> v)
              else if is_proxy_contract then py ''POLY_PROXY'' else py ''EOA'')"
    and p: "proxy_wallet client = (if is_proxy_contract then Some (PROXY_WALLET env) else None)"
    by (auto simp: ClobClient_init_simps)
  show ?thesis
    using signature_types_differ
    by (auto simp: payload_funderAddress s p w)
qed

theorem funder_address_follows_classifier_witness:
  "getenv (system None 0 [] []) (py ''CLOB_SIGNATURE_TYPE'') = None
   \<and> fst (is_contract_wallet chain_contract env0 (PROXY_WALLET env0))
   \<and> (\<exists>client logs.
         create_clob_client chain_contract (system None 0 [] []) from_key0 ClobClient_api env0
           = Inr (client, logs)
         \<and> signature_type client = py ''POLY_PROXY''
         \<and> get (post_order_payload env0 client None (py ''FOK'')) (py ''funderAddress'')
             \<noteq> PNone)"
proof -
  have k: "from_key0 (PRIVATE_KEY env0) = Inr (LocalAccount (PRIVATE_KEY env0))"
    by (simp add: from_key0_def)
  from create_clob_client_returns [where from_key = from_key0 and env = env0
      and sys = "system None 0 [] []" and methods = ClobClient_api,
      OF k is_contract_wallet_chain_contract refl refl refl refl]
  obtain client logs where
    c: "create_clob_client chain_contract (system None 0 [] []) from_key0 ClobClient_api env0
          = Inr (client, logs)"
    by blast
  from funder_address_follows_classifier [OF c, of None "py ''FOK''"] c show ?thesis
    by (auto simp: system_simps(4) is_contract_wallet_chain_contract)
qed

text \<open>
  C8. Once the account is made, \<open>create_clob_client\<close> returns a client. Creation is
  tried first, on the initial client (which has no credentials). When it returns a dict
  with a truthy \<open>key\<close>, the client carries that dict. When it returns a dict without one,
  derivation is tried, and the client carries what derivation returns. When either call
  raises, the error is logged and the client carries the empty dict. The client's
  \<open>api_key\<close> is the \<open>key\<close> of the credentials it carries.
\<close>

theorem credentials_created_else_derived:
  assumes "from_key (PRIVATE_KEY env) = Inr account"
  shows "\<exists>client logs.
           create_clob_client web sys from_key methods env = Inr (client, logs)
           \<and> api_key client = get (api_creds client) (py ''key'')
           \<and> (let initial =
                    ClobClient_init (CLOB_HTTP_URL env) 137 account None
                      (signature_type client) (proxy_wallet client)
              in case create_api_key methods initial of
                   Inl e \<Rightarrow>
                     api_creds client = []
                     \<and> LogError (py ''Failed to create/derive API key: '' @ e) \<in> set logs
                 | Inr created \<Rightarrow>
                     if truthy (get created (py ''key'')) then api_creds client = created
                     else (case derive_api_key methods initial of
                             Inl e \<Rightarrow>
                               api_creds client = []
                               \<and> LogError (py ''Failed to create/derive API key: '' @ e)
                                   \<in> set logs
                           | Inr derived \<Rightarrow> api_creds client = derived))"
proof -
  obtain is_proxy_contract log1
    where w: "is_contract_wallet web env (PROXY_WALLET env) = (is_proxy_contract, log1)"
    by (cases "is_contract_wallet web env (PROXY_WALLET env)")
  define override
    where "override = (case getenv sys (py ''CLOB_SIGNATURE_TYPE'') of None \<Rightarrow> [] | Some v \<Rightarrow> v)"
  define resolved where "resolved =
    (if override \<noteq> [] then override
     else if is_proxy_contract then py ''POLY_PROXY'' else py ''EOA'')"
  define funder where "funder = (if is_proxy_contract then Some (PROXY_WALLET env) else None)"
  define initial
    where "initial = ClobClient_init (CLOB_HTTP_URL env) 137 account None resolved funder"
  from create_clob_client_returns [where from_key = from_key and env = env and sys = sys
      and methods = methods, OF assms w override_def resolved_def funder_def initial_def]
  obtain creds logs where
    run: "create_clob_client web sys from_key methods env
            = Inr (ClobClient_init (CLOB_HTTP_URL env) 137 account (Some creds) resolved funder,
                   logs)"
    and acquired:
      "case create_api_key methods initial of
         Inl e \<Rightarrow> creds = [] \<and> LogError (py ''Failed to create/derive API key: '' @ e) \<in> set logs
       | Inr created \<Rightarrow>
           if truthy (get created (py ''key'')) then creds = created
           else (case derive_api_key methods initial of
                   Inl e \<Rightarrow>
                     creds = []
                     \<and> LogError (py ''Failed to create/derive API key: '' @ e) \<in> set logs
                 | Inr derived \<Rightarrow> creds = derived)"
    by blast
  let ?client = "ClobClient_init (CLOB_HTTP_URL env) 137 account (Some creds) resolved funder"
  have fields: "signature_type ?client = resolved" "proxy_wallet ?client = funder"
    "api_creds ?client = creds" "api_key ?client = get creds (py ''key'')"
    by (simp_all add: ClobClient_init_simps)
  have "let initial =
              ClobClient_init (CLOB_HTTP_URL env) 137 account None
                (signature_type ?client) (proxy_wallet ?client)
        in case create_api_key methods initial of
             Inl e \<Rightarrow>
               api_creds ?client = []
               \<and> LogError (py ''Failed to create/derive API key: '' @ e) \<in> set logs
           | Inr created \<Rightarrow>
               if truthy (get created (py ''key'')) then api_creds ?client = created
               else (case derive_api_key methods initial of
                       Inl e \<Rightarrow>
                         api_creds ?client = []
                         \<and> LogError (py ''Failed to create/derive API key: '' @ e) \<in> set logs
                     | Inr derived \<Rightarrow> api_creds ?client = derived)"
    using acquired by (simp only: fields Let_def initial_def [symmetric])
  with run fields(3,4) show ?thesis
    by (intro exI [of _ ?client] exI [of _ logs]) simp
qed

theorem credentials_created_else_derived_witness:
  "(\<exists>client logs.
      create_clob_client chain_no_code (system None 0 [] []) from_key0 api_derive_abc env0
        = Inr (client, logs)
      \<and> api_creds client = [(py ''key'', PStr (py ''abc''))]
      \<and> api_key client = PStr (py ''abc''))
   \<and> (\<exists>client logs.
         create_clob_client chain_no_code (system None 0 [] []) from_key0 api_create_raises env0
           = Inr (client, logs)
         \<and> api_creds client = []
         \<and> LogError (py ''Failed to create/derive API key: '' @ py ''401 Unauthorized'')
             \<in> set logs)"
proof -
  have k: "from_key0 (PRIVATE_KEY env0) = Inr (LocalAccount (PRIVATE_KEY env0))"
    by (simp add: from_key0_def)
  have "\<exists>client logs.
      create_clob_client chain_no_code (system None 0 [] []) from_key0 api_derive_abc env0
        = Inr (client, logs)
      \<and> api_creds client = [(py ''key'', PStr (py ''abc''))]
      \<and> api_key client = PStr (py ''abc'')"
    using credentials_created_else_derived [where from_key = from_key0 and env = env0
        and web = chain_no_code and sys = "system None 0 [] []" and methods = api_derive_abc,
        OF k]
    by (auto simp: api_derive_abc_def get_def Let_def)
  moreover have "\<exists>client logs.
         create_clob_client chain_no_code (system None 0 [] []) from_key0 api_create_raises env0
           = Inr (client, logs)
         \<and> api_creds client = []
         \<and> LogError (py ''Failed to create/derive API key: '' @ py ''401 Unauthorized'')
             \<in> set logs"
    using credentials_created_else_derived [where from_key = from_key0 and env = env0
        and web = chain_no_code and sys = "system None 0 [] []"
        and methods = api_create_raises, OF k]
    by (auto simp: api_create_raises_def Let_def)
  ultimately show ?thesis by blast
qed

end
